theory Spec2Isabelle
  imports Complex_Main
begin

section \<open>Data of the configuration (src/cxx/lm/config.cc)\<close>

text \<open>
  \<^verbatim>\<open>config.cc\<close> defines the constructor of \<^verbatim>\<open>lm::ngram::Config\<close>, a factory and two
  setters. The class itself and the enumerations of its fields are declared in
  \<^verbatim>\<open>config.hh\<close>, which is not among the sources; the types below give every field
  that the constructor initialises, in the constructor's order, and every enumerator that
  the sources or the specification name.
\<close>

text \<open>
  Modelled from the spec: the enumeration \<^verbatim>\<open>WarningAction\<close> is declared in the absent
  \<^verbatim>\<open>config.hh\<close>. Section 6 of the specification gives its three policies; the
  constructor uses \<^verbatim>\<open>COMPLAIN\<close> and \<^verbatim>\<open>THROW_UP\<close>.
\<close>

datatype WarningAction = THROW_UP | COMPLAIN | SILENT

text \<open>
  Modelled from the spec: the verbosity tiers of \<^verbatim>\<open>arpa_complain\<close> (absent
  \<^verbatim>\<open>config.hh\<close>), named NONE, EXPENSIVE and ALL in section 6. The enumerator
  \<^verbatim>\<open>ALL\<close> is written \<open>ALL'\<close>, since \<open>ALL\<close> is the ASCII quantifier of HOL.
\<close>

datatype ARPALoadComplain = ALL' | EXPENSIVE | NONE

text \<open>
  Modelled from the spec: the enumerations of \<^verbatim>\<open>write_method\<close>,
  \<^verbatim>\<open>rest_function\<close> and \<^verbatim>\<open>load_method\<close> are declared in absent headers. The
  sources name one enumerator of each (\<^verbatim>\<open>WRITE_AFTER\<close>, \<^verbatim>\<open>REST_MAX\<close>,
  \<^verbatim>\<open>util::POPULATE_OR_READ\<close>); the specification describes the options as choices
  (when the image is written, which aggregation rule, eager or lazy mapping) without
  naming further enumerators. Each type has the enumerator of the sources and one
  constructor standing for whatever other enumerators the declaration has, numbered.
\<close>

datatype WriteMethod = WRITE_AFTER | WriteMethod_other nat

datatype RestFunction = REST_MAX | RestFunction_other nat

datatype LoadMethod = POPULATE_OR_READ | LoadMethod_other nat

text \<open>
  A pointer field is an \<open>option\<close>: \<^verbatim>\<open>NULL\<close> is \<open>None\<close>, and a pointer to an
  object is \<open>Some\<close> of that object's identity. The output streams and the vocabulary
  callbacks are objects of the caller; only their identity matters to these files.
\<close>

datatype ostream = std_cerr | ostream_other nat

datatype EnumerateVocab = EnumerateVocab_object nat

text \<open>
  The fields of \<^verbatim>\<open>Config\<close>, in the order of the constructor's initialiser list.
  The two floating-point fields are \<open>real\<close>: the only values these files give them are
  the literals \<^verbatim>\<open>-100.0\<close> and \<^verbatim>\<open>1.5\<close>, which binary floating point represents
  exactly, and no arithmetic is done on them. The integer fields are \<open>nat\<close>: their
  widths are declared in the absent header, and the values stored here (8, 8, 22 and
  \<open>2 ^ 30\<close>) are never computed with.
\<close>

record Config =
  show_progress :: bool
  messages :: "ostream option"
  enumerate_vocab :: "EnumerateVocab option"
  unknown_missing :: WarningAction
  sentence_marker_missing :: WarningAction
  positive_log_probability :: WarningAction
  unknown_missing_logprob :: real
  probing_multiplier :: real
  building_memory :: nat
  temporary_directory_prefix :: string
  arpa_complain :: ARPALoadComplain
  write_mmap :: "string option"
  write_method :: WriteMethod
  include_vocab :: bool
  rest_function :: RestFunction
  prob_bits :: nat
  backoff_bits :: nat
  pointer_bhiksha_bits :: nat
  load_method :: LoadMethod

subsection \<open>The constructor, the factories and the setters\<close>

text \<open>\<^verbatim>\<open>Config::Config()\<close>, config.cc lines 10 to 30.\<close>

definition Config_ctor :: Config where
  "Config_ctor =
     \<lparr> show_progress = True,
       messages = Some std_cerr,
       enumerate_vocab = None,
       unknown_missing = COMPLAIN,
       sentence_marker_missing = THROW_UP,
       positive_log_probability = THROW_UP,
       unknown_missing_logprob = - 100,
       probing_multiplier = 3 / 2,
       building_memory = 1073741824,
       temporary_directory_prefix = [],
       arpa_complain = ALL',
       write_mmap = None,
       write_method = WRITE_AFTER,
       include_vocab = True,
       rest_function = REST_MAX,
       prob_bits = 8,
       backoff_bits = 8,
       pointer_bhiksha_bits = 22,
       load_method = POPULATE_OR_READ \<rparr>"

text \<open>
  \<^verbatim>\<open>lm::ngram::Config_Create\<close> (config.cc lines 39 to 42) and
  \<^verbatim>\<open>lm::base::Config_Create\<close> (virtual_interface.cc lines 48 to 51). Both return
  \<^verbatim>\<open>std::make_unique<Config>()\<close>: a fresh object made by the default constructor,
  here the value of that object. In namespace \<^verbatim>\<open>lm::base\<close> the name \<^verbatim>\<open>Config\<close> is
  the class of config.hh, the only \<^verbatim>\<open>Config\<close> these files include.
\<close>

definition ngram_Config_Create :: Config where
  "ngram_Config_Create = Config_ctor"

definition base_Config_Create :: Config where
  "base_Config_Create = Config_ctor"

text \<open>
  The setters take the configuration by reference and assign one field; the model
  returns the configuration after the assignment.
\<close>

definition Config_set_load_method :: "Config \<Rightarrow> LoadMethod \<Rightarrow> Config" where
  "Config_set_load_method config load_method' = config\<lparr>load_method := load_method'\<rparr>"

definition Config_set_enumerate_callback :: "Config \<Rightarrow> EnumerateVocab \<Rightarrow> Config" where
  "Config_set_enumerate_callback config enumerateCallback =
     (let enumerateCallbackPtr = Some enumerateCallback
      in config\<lparr>enumerate_vocab := enumerateCallbackPtr\<rparr>)"

text \<open>
  Modelled from the spec: the builders that raise a configuration error are in files that
  are not among the sources. Section 7 of the specification names the error,
  \<^verbatim>\<open>ConfigError\<close>, and its three causes: zero quantisation bits, a multiplier of at
  most 1.0, and pointer-width overflow. Each check below is one sentence of section 4.
\<close>

datatype build_error = ConfigError

text \<open>
  Modelled from the spec: section 4.3, the build of the probing table fails if the
  multiplier is at most 1.0. The same sentence has a second cause, an insertion that
  cannot complete within the allotted table; it depends on the entries and on the probing
  scheme, which the specification leaves open, and is not part of this check.
\<close>

definition spec_probing_multiplier_check :: "real \<Rightarrow> build_error + unit" where
  "spec_probing_multiplier_check multiplier =
     (if multiplier \<le> 1 then Inl ConfigError else Inr ())"

text \<open>
  Modelled from the spec: section 4.2, the build of a quantisation table fails if the
  width is 0 or exceeds an implementation ceiling, which the specification puts at 24 to
  25 bits. The ceiling is the parameter \<open>max_bits\<close>.
\<close>

definition spec_quantization_bits_check :: "nat \<Rightarrow> nat \<Rightarrow> build_error + unit" where
  "spec_quantization_bits_check max_bits bits =
     (if bits = 0 \<or> max_bits < bits then Inl ConfigError else Inr ())"

text \<open>
  Modelled from the spec: section 4.4, the build of the trie fails with a structural
  error if any required pointer value exceeds \<open>2 ^ pointerBits - 1\<close>. The pointer values
  that the data requires are the second argument: this constraint is on the width
  relative to the data, not on the width alone.
\<close>

definition spec_trie_pointer_check :: "nat \<Rightarrow> nat list \<Rightarrow> build_error + unit" where
  "spec_trie_pointer_check pointerBits required =
     (if list_all (\<lambda>p. p \<le> 2 ^ pointerBits - 1) required then Inr ()
      else Inl ConfigError)"

section \<open>The vocabulary base class and the loader (src/lm/virtual_interface.cc)\<close>

text \<open>
  Modelled from the spec: \<^verbatim>\<open>WordIndex\<close> is a typedef of an absent header; section 3
  calls it a dense unsigned integer. \<^verbatim>\<open>SetSpecial\<close> only stores values of it.
\<close>

type_synonym WordIndex = nat

text \<open>
  The three data members that \<^verbatim>\<open>Vocabulary::SetSpecial\<close> assigns. The source writes
  them with a trailing underscore (\<^verbatim>\<open>begin_sentence_\<close>), which an Isabelle name cannot
  end with: the prime stands for it. \<^verbatim>\<open>Vocabulary\<close> is a base class, so the functions
  below work on the extensible record: the members of a derived class are its extension.
\<close>

record Vocabulary =
  begin_sentence' :: WordIndex
  end_sentence' :: WordIndex
  not_found' :: WordIndex

text \<open>\<^verbatim>\<open>Vocabulary::SetSpecial\<close>, virtual_interface.cc lines 17 to 22.\<close>

definition SetSpecial ::
  "WordIndex \<Rightarrow> WordIndex \<Rightarrow> WordIndex \<Rightarrow> 'a Vocabulary_scheme \<Rightarrow> 'a Vocabulary_scheme" where
  "SetSpecial begin_sentence end_sentence not_found v =
     v\<lparr>begin_sentence' := begin_sentence,
       end_sentence' := end_sentence,
       not_found' := not_found\<rparr>"

text \<open>
  A run of calls on one vocabulary object, first call first: the code has no other
  operation that writes the three members.
\<close>

primrec SetSpecial_calls ::
  "(WordIndex \<times> WordIndex \<times> WordIndex) list \<Rightarrow> 'a Vocabulary_scheme \<Rightarrow> 'a Vocabulary_scheme" where
  "SetSpecial_calls [] v = v"
| "SetSpecial_calls (call # calls) v =
     SetSpecial_calls calls (SetSpecial (fst call) (fst (snd call)) (snd (snd call)) v)"

text \<open>
  Modelled from the spec: the enumeration \<^verbatim>\<open>ModelType\<close> is declared in the absent
  \<^verbatim>\<open>model_type.hh\<close>. Section 3 gives its six tags, the six case labels of the loader's
  switch. The value comes out of a file header, so a variable of the type can hold a
  number that is none of the six, which is what the \<^verbatim>\<open>default\<close> label of the switch is
  for: \<open>UNRECOGNIZED n\<close> is such a value.
\<close>

datatype ModelType =
  PROBING | REST_PROBING | TRIE | QUANT_TRIE | ARRAY_TRIE | QUANT_ARRAY_TRIE
  | UNRECOGNIZED nat

text \<open>
  The six concrete classes. Their constructors are not among the sources; a value records
  which class \<^verbatim>\<open>std::make_unique\<close> instantiated and the two arguments it passed.
\<close>

datatype Model =
  ProbingModel string Config
  | RestProbingModel string Config
  | TrieModel string Config
  | QuantTrieModel string Config
  | ArrayTrieModel string Config
  | QuantArrayTrieModel string Config

text \<open>
  \<^verbatim>\<open>UTIL_THROW(FormatLoadException, "Confused by model type " << model_type)\<close>: the
  exception carries the model type that its message prints.
\<close>

datatype exception = FormatLoadException ModelType

text \<open>
  \<^verbatim>\<open>file_name.c_str()\<close>: the characters of the string as a C string, which ends at
  the first NUL character.
\<close>

definition c_str :: "string \<Rightarrow> string" where
  "c_str s = takeWhile (\<lambda>c. c \<noteq> CHR 0x00) s"

text \<open>
  Modelled from the spec: \<^verbatim>\<open>RecognizeBinary\<close> is declared and defined in files that are
  not among the sources. Section 4.6: it reads the fixed-size header of the file; a
  recognised magic selects the model type stored there, and its absence says that the
  file is plain text. The loader passes its variable \<^verbatim>\<open>model_type\<close> by reference, so
  the function is given the variable's value and returns the new one beside its answer;
  for a plain-text file there is no type to store and the variable keeps its value. The
  parameter \<open>header\<close> is the file system: the type in the header of each file, \<open>None\<close>
  for a file without the magic.
\<close>

definition RecognizeBinary ::
  "(string \<Rightarrow> ModelType option) \<Rightarrow> string \<Rightarrow> ModelType \<Rightarrow> bool \<times> ModelType" where
  "RecognizeBinary header file recognized =
     (case header file of
        None \<Rightarrow> (False, recognized)
      | Some model_type \<Rightarrow> (True, model_type))"

text \<open>
  \<^verbatim>\<open>LoadVirtualPtr\<close>, virtual_interface.cc lines 26 to 47. The answer of
  \<^verbatim>\<open>RecognizeBinary\<close> is discarded; the switch reads the variable.
\<close>

definition LoadVirtualPtr ::
  "(string \<Rightarrow> ModelType option) \<Rightarrow> string \<Rightarrow> Config \<Rightarrow> exception + Model" where
  "LoadVirtualPtr header file_name config =
     (let model_type = PROBING;
          model_type = snd (RecognizeBinary header (c_str file_name) model_type)
      in case model_type of
           PROBING \<Rightarrow> Inr (ProbingModel (c_str file_name) config)
         | REST_PROBING \<Rightarrow> Inr (RestProbingModel (c_str file_name) config)
         | TRIE \<Rightarrow> Inr (TrieModel (c_str file_name) config)
         | QUANT_TRIE \<Rightarrow> Inr (QuantTrieModel (c_str file_name) config)
         | ARRAY_TRIE \<Rightarrow> Inr (ArrayTrieModel (c_str file_name) config)
         | QUANT_ARRAY_TRIE \<Rightarrow> Inr (QuantArrayTrieModel (c_str file_name) config)
         | UNRECOGNIZED n \<Rightarrow> Inl (FormatLoadException model_type))"

text \<open>
  The correspondence of tags and classes in the words of the specification (section 3 and
  section 4.5): the class named after each of the six tags, and none for any other value.
  It is what the loader's switch is compared with.
\<close>

definition spec_variant :: "ModelType \<Rightarrow> (string \<Rightarrow> Config \<Rightarrow> Model) option" where
  "spec_variant t =
     (if t = PROBING then Some ProbingModel
      else if t = REST_PROBING then Some RestProbingModel
      else if t = TRIE then Some TrieModel
      else if t = QUANT_TRIE then Some QuantTrieModel
      else if t = ARRAY_TRIE then Some ArrayTrieModel
      else if t = QUANT_ARRAY_TRIE then Some QuantArrayTrieModel
      else None)"

section \<open>The default configuration\<close>

lemma Config_ctor_fields:
  "show_progress Config_ctor = True"
  "messages Config_ctor = Some std_cerr"
  "enumerate_vocab Config_ctor = None"
  "unknown_missing Config_ctor = COMPLAIN"
  "sentence_marker_missing Config_ctor = THROW_UP"
  "positive_log_probability Config_ctor = THROW_UP"
  "unknown_missing_logprob Config_ctor = - 100"
  "probing_multiplier Config_ctor = 3 / 2"
  "building_memory Config_ctor = 1073741824"
  "temporary_directory_prefix Config_ctor = []"
  "arpa_complain Config_ctor = ALL'"
  "write_mmap Config_ctor = None"
  "write_method Config_ctor = WRITE_AFTER"
  "include_vocab Config_ctor = True"
  "rest_function Config_ctor = REST_MAX"
  "prob_bits Config_ctor = 8"
  "backoff_bits Config_ctor = 8"
  "pointer_bhiksha_bits Config_ctor = 22"
  "load_method Config_ctor = POPULATE_OR_READ"
  by (simp_all add: Config_ctor_def)

text \<open>
  Claim C5, as it is stated, fails: it concludes that the defaults can never trigger a
  configuration error, and the specification makes pointer-width overflow depend on the
  data. With the default pointer width of 22 bits, data that requires the pointer value
  \<open>2 ^ 22 = 4194304\<close> fails the check of section 4.4, while 4194303 passes it.
\<close>

theorem Config_ctor_pointer_overflow_counterexample:
  "pointer_bhiksha_bits Config_ctor = 22
   \<and> spec_trie_pointer_check (pointer_bhiksha_bits Config_ctor) [4194303] = Inr ()
   \<and> spec_trie_pointer_check (pointer_bhiksha_bits Config_ctor) [4194304] = Inl ConfigError"
  by (simp add: spec_trie_pointer_check_def Config_ctor_fields)

text \<open>
  Claim C5, amended. The configuration made by the default constructor passes the checks
  that the specification puts on a parameter alone: its probing multiplier is 1.5, above
  1.0, and its two quantisation widths are 8, not 0 and within the ceiling, be it 24 or
  25. Its pointer width is 22, and the constraint on it is relative to the data: the
  trie's pointer check passes when every required pointer value is at most
  \<open>2 ^ 22 - 1 = 4194303\<close> and raises the configuration error otherwise.
\<close>

theorem Config_ctor_parameter_checks:
  "probing_multiplier Config_ctor = 3 / 2
   \<and> 1 < probing_multiplier Config_ctor
   \<and> spec_probing_multiplier_check (probing_multiplier Config_ctor) = Inr ()
   \<and> prob_bits Config_ctor = 8
   \<and> backoff_bits Config_ctor = 8
   \<and> spec_quantization_bits_check 24 (prob_bits Config_ctor) = Inr ()
   \<and> spec_quantization_bits_check 25 (prob_bits Config_ctor) = Inr ()
   \<and> spec_quantization_bits_check 24 (backoff_bits Config_ctor) = Inr ()
   \<and> spec_quantization_bits_check 25 (backoff_bits Config_ctor) = Inr ()
   \<and> pointer_bhiksha_bits Config_ctor = 22
   \<and> spec_trie_pointer_check (pointer_bhiksha_bits Config_ctor) required
       = (if list_all (\<lambda>p. p \<le> 4194303) required then Inr () else Inl ConfigError)"
  by (simp add: spec_probing_multiplier_check_def spec_quantization_bits_check_def
      spec_trie_pointer_check_def Config_ctor_fields)

text \<open>
  Claim C6. The default constructor points the diagnostics sink \<^verbatim>\<open>messages\<close> at
  \<^verbatim>\<open>std::cerr\<close>: a configuration on which no sink has been set writes to standard error.
\<close>

theorem Config_ctor_messages_cerr:
  "messages Config_ctor = Some std_cerr"
  by (simp add: Config_ctor_def)

text \<open>
  Claim C7. The default constructor selects the rest-cost rule \<^verbatim>\<open>REST_MAX\<close>, the
  maximum over extensions.
\<close>

theorem Config_ctor_rest_max:
  "rest_function Config_ctor = REST_MAX"
  by (simp add: Config_ctor_def)

text \<open>
  Claim C8. The log-probability that the default configuration substitutes for a
  tolerated unknown word is -100: strictly negative, so at most 0, within the bound of
  the specification on a score.
\<close>

theorem Config_ctor_unknown_logprob_negative:
  "unknown_missing_logprob Config_ctor = - 100
   \<and> unknown_missing_logprob Config_ctor < 0
   \<and> unknown_missing_logprob Config_ctor \<le> 0"
  by (simp add: Config_ctor_def)

section \<open>The setters\<close>

text \<open>
  Claim C9. Each setter changes its own field and no other: after
  \<^verbatim>\<open>Config_set_load_method\<close> the load method is the argument and the other eighteen
  fields are as before; after \<^verbatim>\<open>Config_set_enumerate_callback\<close> the callback pointer
  points to the argument and the other eighteen fields are as before. Putting the old
  value of the field back gives the configuration that was passed in.
\<close>

theorem Config_setters_frame:
  "load_method (Config_set_load_method c m) = m
   \<and> show_progress (Config_set_load_method c m) = show_progress c
   \<and> messages (Config_set_load_method c m) = messages c
   \<and> enumerate_vocab (Config_set_load_method c m) = enumerate_vocab c
   \<and> unknown_missing (Config_set_load_method c m) = unknown_missing c
   \<and> sentence_marker_missing (Config_set_load_method c m) = sentence_marker_missing c
   \<and> positive_log_probability (Config_set_load_method c m) = positive_log_probability c
   \<and> unknown_missing_logprob (Config_set_load_method c m) = unknown_missing_logprob c
   \<and> probing_multiplier (Config_set_load_method c m) = probing_multiplier c
   \<and> building_memory (Config_set_load_method c m) = building_memory c
   \<and> temporary_directory_prefix (Config_set_load_method c m) = temporary_directory_prefix c
   \<and> arpa_complain (Config_set_load_method c m) = arpa_complain c
   \<and> write_mmap (Config_set_load_method c m) = write_mmap c
   \<and> write_method (Config_set_load_method c m) = write_method c
   \<and> include_vocab (Config_set_load_method c m) = include_vocab c
   \<and> rest_function (Config_set_load_method c m) = rest_function c
   \<and> prob_bits (Config_set_load_method c m) = prob_bits c
   \<and> backoff_bits (Config_set_load_method c m) = backoff_bits c
   \<and> pointer_bhiksha_bits (Config_set_load_method c m) = pointer_bhiksha_bits c
   \<and> (Config_set_load_method c m)\<lparr>load_method := load_method c\<rparr> = c
   \<and> enumerate_vocab (Config_set_enumerate_callback c cb) = Some cb
   \<and> show_progress (Config_set_enumerate_callback c cb) = show_progress c
   \<and> messages (Config_set_enumerate_callback c cb) = messages c
   \<and> unknown_missing (Config_set_enumerate_callback c cb) = unknown_missing c
   \<and> sentence_marker_missing (Config_set_enumerate_callback c cb) = sentence_marker_missing c
   \<and> positive_log_probability (Config_set_enumerate_callback c cb) = positive_log_probability c
   \<and> unknown_missing_logprob (Config_set_enumerate_callback c cb) = unknown_missing_logprob c
   \<and> probing_multiplier (Config_set_enumerate_callback c cb) = probing_multiplier c
   \<and> building_memory (Config_set_enumerate_callback c cb) = building_memory c
   \<and> temporary_directory_prefix (Config_set_enumerate_callback c cb) = temporary_directory_prefix c
   \<and> arpa_complain (Config_set_enumerate_callback c cb) = arpa_complain c
   \<and> write_mmap (Config_set_enumerate_callback c cb) = write_mmap c
   \<and> write_method (Config_set_enumerate_callback c cb) = write_method c
   \<and> include_vocab (Config_set_enumerate_callback c cb) = include_vocab c
   \<and> rest_function (Config_set_enumerate_callback c cb) = rest_function c
   \<and> prob_bits (Config_set_enumerate_callback c cb) = prob_bits c
   \<and> backoff_bits (Config_set_enumerate_callback c cb) = backoff_bits c
   \<and> pointer_bhiksha_bits (Config_set_enumerate_callback c cb) = pointer_bhiksha_bits c
   \<and> load_method (Config_set_enumerate_callback c cb) = load_method c
   \<and> (Config_set_enumerate_callback c cb)\<lparr>enumerate_vocab := enumerate_vocab c\<rparr> = c"
  by (simp add: Config_set_load_method_def Config_set_enumerate_callback_def)

section \<open>The factories\<close>

text \<open>
  Claim C10. The factory of namespace \<^verbatim>\<open>lm::ngram\<close> and the factory of namespace
  \<^verbatim>\<open>lm::base\<close> return the same configuration, the one the default constructor makes:
  the same policies, multiplier, bit widths, sink and load method, and every other field.
\<close>

theorem Config_Create_agree:
  "ngram_Config_Create = base_Config_Create
   \<and> ngram_Config_Create = Config_ctor
   \<and> base_Config_Create = Config_ctor
   \<and> unknown_missing ngram_Config_Create = unknown_missing base_Config_Create
   \<and> sentence_marker_missing ngram_Config_Create = sentence_marker_missing base_Config_Create
   \<and> positive_log_probability ngram_Config_Create = positive_log_probability base_Config_Create
   \<and> probing_multiplier ngram_Config_Create = probing_multiplier base_Config_Create
   \<and> prob_bits ngram_Config_Create = prob_bits base_Config_Create
   \<and> backoff_bits ngram_Config_Create = backoff_bits base_Config_Create
   \<and> pointer_bhiksha_bits ngram_Config_Create = pointer_bhiksha_bits base_Config_Create
   \<and> messages ngram_Config_Create = messages base_Config_Create
   \<and> load_method ngram_Config_Create = load_method base_Config_Create"
  by (simp add: ngram_Config_Create_def base_Config_Create_def)

section \<open>The reserved word indices\<close>

lemma SetSpecial_calls_snoc:
  "SetSpecial_calls (calls @ [call]) v =
     SetSpecial (fst call) (fst (snd call)) (snd (snd call)) (SetSpecial_calls calls v)"
  by (induction calls arbitrary: v) simp_all

lemma SetSpecial_overwrites:
  "SetSpecial b e n (SetSpecial b0 e0 n0 v) = SetSpecial b e n v"
  by (simp add: SetSpecial_def)

lemma SetSpecial_after_calls:
  "SetSpecial b e n (SetSpecial_calls calls v) = SetSpecial b e n v"
proof (induction calls arbitrary: v)
  case Nil
  show ?case by simp
next
  case (Cons call calls)
  have "SetSpecial b e n (SetSpecial_calls (call # calls) v) =
        SetSpecial b e n (SetSpecial (fst call) (fst (snd call)) (snd (snd call)) v)"
    by (simp add: Cons.IH)
  also have "\<dots> = SetSpecial b e n v"
    by (rule SetSpecial_overwrites)
  finally show ?case .
qed

lemma SetSpecial_calls_more:
  "Vocabulary.more (SetSpecial_calls calls v) = Vocabulary.more v"
  by (induction calls arbitrary: v) (simp_all add: SetSpecial_def)

text \<open>
  Claim C4, as the specification states it, fails: nothing in the code limits
  \<^verbatim>\<open>SetSpecial\<close> to one call, and a second call changes the three indices. Here the
  first call sets the not-found index to 0 and a later call makes it 6.
\<close>

theorem SetSpecial_once_counterexample:
  "not_found'
     (SetSpecial 1 2 0 \<lparr>begin_sentence' = 7, end_sentence' = 8, not_found' = 9\<rparr>) = 0
   \<and> not_found'
       (SetSpecial_calls [(4, 5, 6)]
         (SetSpecial 1 2 0 \<lparr>begin_sentence' = 7, end_sentence' = 8, not_found' = 9\<rparr>)) = 6
   \<and> not_found'
       (SetSpecial_calls [(4, 5, 6)]
         (SetSpecial 1 2 0 \<lparr>begin_sentence' = 7, end_sentence' = 8, not_found' = 9\<rparr>)) \<noteq> 0"
  by (simp add: SetSpecial_def)

text \<open>
  Claim C4, amended. After a call of \<^verbatim>\<open>SetSpecial\<close> the stored begin-sentence,
  end-sentence and not-found indices are the three arguments of that call, and the rest of
  the vocabulary object is as it was. A later call replaces all three: after any run of
  calls the stored indices are the arguments of the last one, whatever the earlier calls
  stored; calling again with the same arguments changes nothing.
\<close>

theorem SetSpecial_stores_last_call:
  "begin_sentence' (SetSpecial b e n v) = b
   \<and> end_sentence' (SetSpecial b e n v) = e
   \<and> not_found' (SetSpecial b e n v) = n
   \<and> Vocabulary.more (SetSpecial b e n v) = Vocabulary.more v
   \<and> SetSpecial b e n (SetSpecial b e n v) = SetSpecial b e n v
   \<and> SetSpecial_calls (calls @ [(b, e, n)]) v = SetSpecial b e n v
   \<and> begin_sentence' (SetSpecial_calls (calls @ [(b, e, n)]) v) = b
   \<and> end_sentence' (SetSpecial_calls (calls @ [(b, e, n)]) v) = e
   \<and> not_found' (SetSpecial_calls (calls @ [(b, e, n)]) v) = n"
proof -
  have last: "SetSpecial_calls (calls @ [(b, e, n)]) v = SetSpecial b e n v"
    by (simp add: SetSpecial_calls_snoc SetSpecial_after_calls)
  show ?thesis
    unfolding last by (simp add: SetSpecial_def)
qed

section \<open>The loader\<close>

lemma c_str_id: "CHR 0x00 \<notin> set s \<Longrightarrow> c_str s = s"
  unfolding c_str_def by (rule takeWhile_eq_all_conv[THEN iffD2]) auto

text \<open>The loader as one switch on the type in the file's header, \<open>PROBING\<close> without one.\<close>

lemma LoadVirtualPtr_switch:
  "LoadVirtualPtr header file_name config =
     (case (case header (c_str file_name) of None \<Rightarrow> PROBING | Some t \<Rightarrow> t) of
        PROBING \<Rightarrow> Inr (ProbingModel (c_str file_name) config)
      | REST_PROBING \<Rightarrow> Inr (RestProbingModel (c_str file_name) config)
      | TRIE \<Rightarrow> Inr (TrieModel (c_str file_name) config)
      | QUANT_TRIE \<Rightarrow> Inr (QuantTrieModel (c_str file_name) config)
      | ARRAY_TRIE \<Rightarrow> Inr (ArrayTrieModel (c_str file_name) config)
      | QUANT_ARRAY_TRIE \<Rightarrow> Inr (QuantArrayTrieModel (c_str file_name) config)
      | UNRECOGNIZED n \<Rightarrow> Inl (FormatLoadException (UNRECOGNIZED n)))"
  by (simp add: LoadVirtualPtr_def RecognizeBinary_def split: option.split ModelType.split)

text \<open>
  Claim C1, as the specification states it, fails: the loader discards the answer of
  \<^verbatim>\<open>RecognizeBinary\<close>. For a file that is not a binary model the variable keeps its
  initial value \<^verbatim>\<open>PROBING\<close>, and the loader returns a \<^verbatim>\<open>ProbingModel\<close> made from
  that path; it has no result that sends the caller to a build path.
\<close>

theorem LoadVirtualPtr_plain_text_counterexample:
  "fst (RecognizeBinary Map.empty (c_str ''corpus.arpa'') PROBING) = False
   \<and> LoadVirtualPtr Map.empty ''corpus.arpa'' Config_ctor
       = Inr (ProbingModel ''corpus.arpa'' Config_ctor)
   \<and> \<not> isl (LoadVirtualPtr Map.empty ''corpus.arpa'' Config_ctor)"
  by (simp add: LoadVirtualPtr_def RecognizeBinary_def c_str_def)

text \<open>
  Claim C1, amended. For every file path for which \<^verbatim>\<open>RecognizeBinary\<close> reports that the
  file is not a recognised binary model, the loader keeps the default model type
  \<^verbatim>\<open>PROBING\<close> and returns a \<^verbatim>\<open>ProbingModel\<close> constructed from that path and the given
  configuration: the plain-text file is handed to the constructor of the probing model.
\<close>

theorem LoadVirtualPtr_plain_text:
  assumes "fst (RecognizeBinary header (c_str file_name) PROBING) = False"
  shows "LoadVirtualPtr header file_name config = Inr (ProbingModel (c_str file_name) config)"
proof -
  from assms have "header (c_str file_name) = None"
    by (simp add: RecognizeBinary_def split: option.splits)
  then show ?thesis
    by (simp add: LoadVirtualPtr_switch)
qed

theorem LoadVirtualPtr_plain_text_witness:
  "fst (RecognizeBinary [''lm.bin'' \<mapsto> TRIE] (c_str ''train.arpa'') PROBING) = False
   \<and> LoadVirtualPtr [''lm.bin'' \<mapsto> TRIE] ''train.arpa''
         (Config_set_load_method Config_ctor (LoadMethod_other 0))
       = Inr (ProbingModel ''train.arpa''
               (Config_set_load_method Config_ctor (LoadMethod_other 0)))"
proof -
  have h: "fst (RecognizeBinary [''lm.bin'' \<mapsto> TRIE] (c_str ''train.arpa'') PROBING) = False"
    by (simp add: RecognizeBinary_def c_str_def)
  have n: "c_str ''train.arpa'' = ''train.arpa''"
    by (simp add: c_str_def)
  show ?thesis
    using h
      LoadVirtualPtr_plain_text
        [of "[''lm.bin'' \<mapsto> TRIE]" "''train.arpa''"
            "Config_set_load_method Config_ctor (LoadMethod_other 0)", OF h]
    by (simp only: n simp_thms)
qed

text \<open>
  Claim C2. When the header of the file holds a type that is none of the six recognised
  tags, the loader returns no model: it throws \<^verbatim>\<open>FormatLoadException\<close>, with the
  offending type in its message.
\<close>

theorem LoadVirtualPtr_unrecognized:
  assumes "header (c_str file_name) = Some t"
    and "t \<notin> {PROBING, REST_PROBING, TRIE, QUANT_TRIE, ARRAY_TRIE, QUANT_ARRAY_TRIE}"
  shows "LoadVirtualPtr header file_name config = Inl (FormatLoadException t)"
proof (cases t)
  case (UNRECOGNIZED n)
  with assms(1) show ?thesis
    by (simp add: LoadVirtualPtr_switch)
qed (use assms(2) in simp_all)

theorem LoadVirtualPtr_unrecognized_witness:
  "[''future.bin'' \<mapsto> UNRECOGNIZED 6] (c_str ''future.bin'') = Some (UNRECOGNIZED 6)
   \<and> UNRECOGNIZED 6 \<notin> {PROBING, REST_PROBING, TRIE, QUANT_TRIE, ARRAY_TRIE, QUANT_ARRAY_TRIE}
   \<and> LoadVirtualPtr [''future.bin'' \<mapsto> UNRECOGNIZED 6] ''future.bin'' Config_ctor
       = Inl (FormatLoadException (UNRECOGNIZED 6))"
proof -
  have h: "[''future.bin'' \<mapsto> UNRECOGNIZED 6] (c_str ''future.bin'') = Some (UNRECOGNIZED 6)"
    by (simp add: c_str_def)
  have u: "UNRECOGNIZED 6 \<notin> {PROBING, REST_PROBING, TRIE, QUANT_TRIE, ARRAY_TRIE, QUANT_ARRAY_TRIE}"
    by simp
  show ?thesis
    using h u
      LoadVirtualPtr_unrecognized
        [of "[''future.bin'' \<mapsto> UNRECOGNIZED 6]" "''future.bin''" "UNRECOGNIZED 6"
            Config_ctor, OF h u]
    by simp
qed

text \<open>
  Claim C3. When the header of the file holds one of the six recognised tags, the loader
  returns the model of the class that the specification pairs with the tag
  (\<open>spec_variant\<close>), constructed from the file name as a C string and from the
  configuration it was given. A file name has no NUL character, and then the C string is
  the name itself: name and configuration arrive unchanged.
\<close>

theorem LoadVirtualPtr_dispatch:
  assumes "header (c_str file_name) = Some t"
    and "spec_variant t = Some K"
  shows "LoadVirtualPtr header file_name config = Inr (K (c_str file_name) config)
         \<and> (CHR 0x00 \<notin> set file_name \<longrightarrow>
              LoadVirtualPtr header file_name config = Inr (K file_name config))"
proof -
  have "LoadVirtualPtr header file_name config = Inr (K (c_str file_name) config)"
    using assms by (cases t) (simp_all add: LoadVirtualPtr_switch spec_variant_def)
  then show ?thesis
    by (simp add: c_str_id)
qed

theorem LoadVirtualPtr_dispatch_witness:
  "LoadVirtualPtr [''lm.bin'' \<mapsto> PROBING] ''lm.bin'' Config_ctor
     = Inr (ProbingModel ''lm.bin'' Config_ctor)
   \<and> LoadVirtualPtr [''lm.bin'' \<mapsto> REST_PROBING] ''lm.bin'' Config_ctor
     = Inr (RestProbingModel ''lm.bin'' Config_ctor)
   \<and> LoadVirtualPtr [''lm.bin'' \<mapsto> TRIE] ''lm.bin'' Config_ctor
     = Inr (TrieModel ''lm.bin'' Config_ctor)
   \<and> LoadVirtualPtr [''lm.bin'' \<mapsto> QUANT_TRIE] ''lm.bin'' Config_ctor
     = Inr (QuantTrieModel ''lm.bin'' Config_ctor)
   \<and> LoadVirtualPtr [''lm.bin'' \<mapsto> ARRAY_TRIE] ''lm.bin'' Config_ctor
     = Inr (ArrayTrieModel ''lm.bin'' Config_ctor)
   \<and> LoadVirtualPtr [''lm.bin'' \<mapsto> QUANT_ARRAY_TRIE] ''lm.bin'' Config_ctor
     = Inr (QuantArrayTrieModel ''lm.bin'' Config_ctor)"
proof -
  have n: "c_str ''lm.bin'' = ''lm.bin''" "CHR 0x00 \<notin> set ''lm.bin''"
    by (simp_all add: c_str_def)
  have h: "[''lm.bin'' \<mapsto> t] (c_str ''lm.bin'') = Some t" for t :: ModelType
    by (simp add: n)
  have v: "spec_variant PROBING = Some ProbingModel"
    "spec_variant REST_PROBING = Some RestProbingModel"
    "spec_variant TRIE = Some TrieModel"
    "spec_variant QUANT_TRIE = Some QuantTrieModel"
    "spec_variant ARRAY_TRIE = Some ArrayTrieModel"
    "spec_variant QUANT_ARRAY_TRIE = Some QuantArrayTrieModel"
    by (simp_all add: spec_variant_def)
  note d = LoadVirtualPtr_dispatch [where file_name = "''lm.bin''" and config = Config_ctor]
  show ?thesis
    using d [where header = "[''lm.bin'' \<mapsto> PROBING]", OF h v(1)]
      d [where header = "[''lm.bin'' \<mapsto> REST_PROBING]", OF h v(2)]
      d [where header = "[''lm.bin'' \<mapsto> TRIE]", OF h v(3)]
      d [where header = "[''lm.bin'' \<mapsto> QUANT_TRIE]", OF h v(4)]
      d [where header = "[''lm.bin'' \<mapsto> ARRAY_TRIE]", OF h v(5)]
      d [where header = "[''lm.bin'' \<mapsto> QUANT_ARRAY_TRIE]", OF h v(6)]
    by (simp only: n simp_thms)
qed

end
